theory Spec2Isabelle
  imports Main "HOL-Library.Sublist" "HOL-Library.AList"
begin

section \<open>Values carried by the envelope\<close>

text \<open>
  The payload of a reply and the diagnostic values of an error reply have the Go type
  \<^verbatim>\<open>interface{}\<close>. They are modelled by the JSON value they denote; the nil interface
  is \<open>None\<close> of \<open>jvalue option\<close>. Go strings are byte sequences, so a \<open>string\<close>
  here is the list of the UTF-8 bytes of the source literal.
\<close>

datatype jvalue =
    JNull
  | JBool bool
  | JInt int
  | JStr string
  | JArr "jvalue list"
  | JObj "(string \<times> jvalue) list"

text \<open>
  The run-time panics of the modelled code: the dereference of a nil pointer, a failed
  type assertion, and the panic of net/http's \<^verbatim>\<open>WriteHeader\<close> on a status code outside
  100 to 999.
\<close>

datatype panic = NilDereference | TypeAssertion | InvalidWriteHeaderCode

section \<open>Language tags and the localization table (enum.go, var block and init)\<close>

definition LANG_ZH_CN :: string where "LANG_ZH_CN = ''zh-CN''"
definition LANG_ZH_TW :: string where "LANG_ZH_TW = ''zh-TW''"
definition LANG_EN_US :: string where "LANG_EN_US = ''en-US''"
definition LANG_DEFAULT :: string where "LANG_DEFAULT = LANG_ZH_CN"

text \<open>
  The assignments of \<^verbatim>\<open>init()\<close>, in source order. The table is the map they build: a
  later assignment to a key replaces an earlier one.
\<close>

definition eci18n_init :: "(string \<times> string) list" where
  "eci18n_init = [
    (''200.'' @ LANG_ZH_CN, [CHR 0xE8, CHR 0xAF, CHR 0xB7, CHR 0xE6, CHR 0xB1, CHR 0x82, CHR 0xE6, CHR 0x88, CHR 0x90, CHR 0xE5, CHR 0x8A, CHR 0x9F]),
    (''200.'' @ LANG_ZH_TW, [CHR 0xE8, CHR 0xAF, CHR 0xB7, CHR 0xE6, CHR 0xB1, CHR 0x82, CHR 0xE6, CHR 0x88, CHR 0x90, CHR 0xE5, CHR 0x8A, CHR 0x9F]),
    (''200.'' @ LANG_EN_US, ''Success''),
    (''400.'' @ LANG_ZH_CN, [CHR 0xE8, CHR 0xAF, CHR 0xB7, CHR 0xE6, CHR 0xB1, CHR 0x82, CHR 0xE5, CHR 0xA4, CHR 0xB1, CHR 0xE8, CHR 0xB4, CHR 0xA5]),
    (''400.'' @ LANG_ZH_TW, [CHR 0xE8, CHR 0xAF, CHR 0xB7, CHR 0xE6, CHR 0xB1, CHR 0x82, CHR 0xE5, CHR 0xA4, CHR 0xB1, CHR 0xE8, CHR 0xB4, CHR 0xA5]),
    (''400.'' @ LANG_EN_US, ''Fail''),
    (''401.'' @ LANG_ZH_CN, [CHR 0xE9, CHR 0x9D, CHR 0x9E, CHR 0xE6, CHR 0xB3, CHR 0x95, CHR 0xE7, CHR 0x9A, CHR 0x84, CHR 0xE8, CHR 0xAF, CHR 0xB7, CHR 0xE6, CHR 0xB1, CHR 0x82] @ ''API'' @ [CHR 0xE5, CHR 0x8D, CHR 0x8F, CHR 0xE8, CHR 0xAE, CHR 0xAE]),
    (''401.'' @ LANG_ZH_TW, [CHR 0xE9, CHR 0x9D, CHR 0x9E, CHR 0xE6, CHR 0xB3, CHR 0x95, CHR 0xE7, CHR 0x9A, CHR 0x84, CHR 0xE8, CHR 0xAF, CHR 0xB7, CHR 0xE6, CHR 0xB1, CHR 0x82] @ ''API'' @ [CHR 0xE5, CHR 0x8D, CHR 0x8F, CHR 0xE8, CHR 0xAE, CHR 0xAE]),
    (''401.'' @ LANG_EN_US, ''Invalid Protocol''),
    (''403.'' @ LANG_ZH_CN, [CHR 0xE6, CHR 0x9D, CHR 0x83, CHR 0xE9, CHR 0x99, CHR 0x90, CHR 0xE9, CHR 0xAA, CHR 0x8C, CHR 0xE8, CHR 0xAF, CHR 0x81, CHR 0xE5, CHR 0xA4, CHR 0xB1, CHR 0xE8, CHR 0xB4, CHR 0xA5, CHR 0xEF, CHR 0xBC, CHR 0x8C, CHR 0xE8, CHR 0xAF, CHR 0xB7, CHR 0xE9, CHR 0x87, CHR 0x8D, CHR 0xE6, CHR 0x96, CHR 0xB0, CHR 0xE7, CHR 0x99, CHR 0xBB, CHR 0xE5, CHR 0xBD, CHR 0x95]),
    (''403.'' @ LANG_ZH_TW, [CHR 0xE6, CHR 0x9D, CHR 0x83, CHR 0xE9, CHR 0x99, CHR 0x90, CHR 0xE9, CHR 0xAA, CHR 0x8C, CHR 0xE8, CHR 0xAF, CHR 0x81, CHR 0xE5, CHR 0xA4, CHR 0xB1, CHR 0xE8, CHR 0xB4, CHR 0xA5, CHR 0xEF, CHR 0xBC, CHR 0x8C, CHR 0xE8, CHR 0xAF, CHR 0xB7, CHR 0xE9, CHR 0x87, CHR 0x8D, CHR 0xE6, CHR 0x96, CHR 0xB0, CHR 0xE7, CHR 0x99, CHR 0xBB, CHR 0xE5, CHR 0xBD, CHR 0x95]),
    (''403.'' @ LANG_EN_US, ''Permission Denied,Please Login! ''),
    (''404.'' @ LANG_ZH_CN, [CHR 0xE6, CHR 0xB5, CHR 0x81, CHR 0xE9, CHR 0x87, CHR 0x8F, CHR 0xE6, CHR 0x8E, CHR 0xA7, CHR 0xE5, CHR 0x88, CHR 0xB6]),
    (''404.'' @ LANG_ZH_TW, [CHR 0xE6, CHR 0xB5, CHR 0x81, CHR 0xE9, CHR 0x87, CHR 0x8F, CHR 0xE6, CHR 0x8E, CHR 0xA7, CHR 0xE5, CHR 0x88, CHR 0xB6]),
    (''404.'' @ LANG_EN_US, ''Flow Controlled''),
    (''405.'' @ LANG_ZH_CN, [CHR 0xE6, CHR 0x9A, CHR 0x82, CHR 0xE4, CHR 0xB8, CHR 0x8D, CHR 0xE6, CHR 0x94, CHR 0xAF, CHR 0xE6, CHR 0x8C, CHR 0x81, CHR 0xE7, CHR 0x9A, CHR 0x84, CHR 0xE6, CHR 0x9C, CHR 0x8D, CHR 0xE5, CHR 0x8A, CHR 0xA1]),
    (''405.'' @ LANG_ZH_TW, [CHR 0xE6, CHR 0x9A, CHR 0x82, CHR 0xE4, CHR 0xB8, CHR 0x8D, CHR 0xE6, CHR 0x94, CHR 0xAF, CHR 0xE6, CHR 0x8C, CHR 0x81, CHR 0xE7, CHR 0x9A, CHR 0x84, CHR 0xE6, CHR 0x9C, CHR 0x8D, CHR 0xE5, CHR 0x8A, CHR 0xA1]),
    (''405.'' @ LANG_EN_US, ''Service Not Found''),
    (''410.'' @ LANG_ZH_CN, [CHR 0xE7, CHR 0x8A, CHR 0xB6, CHR 0xE6, CHR 0x80, CHR 0x81, CHR 0xE5, CHR 0xB7, CHR 0xB2, CHR 0xE7, CHR 0xBB, CHR 0x8F, CHR 0xE5, CHR 0xA4, CHR 0xB1, CHR 0xE6, CHR 0x95, CHR 0x88]),
    (''410.'' @ LANG_ZH_TW, [CHR 0xE7, CHR 0x8A, CHR 0xB6, CHR 0xE6, CHR 0x80, CHR 0x81, CHR 0xE5, CHR 0xB7, CHR 0xB2, CHR 0xE7, CHR 0xBB, CHR 0x8F, CHR 0xE5, CHR 0xA4, CHR 0xB1, CHR 0xE6, CHR 0x95, CHR 0x88]),
    (''410.'' @ LANG_EN_US, ''Session has been expired !''),
    (''500.'' @ LANG_ZH_CN, [CHR 0xE6, CHR 0x9C, CHR 0x8D, CHR 0xE5, CHR 0x8A, CHR 0xA1, CHR 0xE5, CHR 0x99, CHR 0xA8, CHR 0xE5, CHR 0x86, CHR 0x85, CHR 0xE9, CHR 0x83, CHR 0xA8, CHR 0xE9, CHR 0x94, CHR 0x99, CHR 0xE8, CHR 0xAF, CHR 0xAF] @ '','' @ [CHR 0xE8, CHR 0xAF, CHR 0xB7, CHR 0xE7, CHR 0xA8, CHR 0x8D, CHR 0xE5, CHR 0x90, CHR 0x8E, CHR 0xE5, CHR 0x86, CHR 0x8D, CHR 0xE8, CHR 0xAF, CHR 0x95]),
    (''500.'' @ LANG_ZH_TW, [CHR 0xE6, CHR 0x9C, CHR 0x8D, CHR 0xE5, CHR 0x8A, CHR 0xA1, CHR 0xE5, CHR 0x99, CHR 0xA8, CHR 0xE5, CHR 0x86, CHR 0x85, CHR 0xE9, CHR 0x83, CHR 0xA8, CHR 0xE9, CHR 0x94, CHR 0x99, CHR 0xE8, CHR 0xAF, CHR 0xAF] @ '','' @ [CHR 0xE8, CHR 0xAF, CHR 0xB7, CHR 0xE7, CHR 0xA8, CHR 0x8D, CHR 0xE5, CHR 0x90, CHR 0x8E, CHR 0xE5, CHR 0x86, CHR 0x8D, CHR 0xE8, CHR 0xAF, CHR 0x95]),
    (''500.'' @ LANG_EN_US, ''Server Internal Error !''),
    (''501.'' @ LANG_ZH_CN, [CHR 0xE5, CHR 0x8F, CHR 0x82, CHR 0xE6, CHR 0x95, CHR 0xB0, CHR 0xE9, CHR 0x94, CHR 0x99, CHR 0xE8, CHR 0xAF, CHR 0xAF]),
    (''501.'' @ LANG_ZH_TW, [CHR 0xE5, CHR 0x8F, CHR 0x82, CHR 0xE6, CHR 0x95, CHR 0xB0, CHR 0xE9, CHR 0x94, CHR 0x99, CHR 0xE8, CHR 0xAF, CHR 0xAF]),
    (''501.'' @ LANG_EN_US, ''Parameters are invalid  !''),
    (''502.'' @ LANG_ZH_CN, [CHR 0xE8, CHR 0xAF, CHR 0xBB, CHR 0xE5, CHR 0x8F, CHR 0x96, CHR 0xE5, CHR 0xBE, CHR 0xAE, CHR 0xE4, CHR 0xBF, CHR 0xA1, CHR 0xE6, CHR 0x9C, CHR 0x8D, CHR 0xE5, CHR 0x8A, CHR 0xA1, CHR 0xE5, CHR 0x99, CHR 0xA8, CHR 0xE6, CHR 0x95, CHR 0xB0, CHR 0xE6, CHR 0x8D, CHR 0xAE, CHR 0xE5, CHR 0xA4, CHR 0xB1, CHR 0xE8, CHR 0xB4, CHR 0xA5, CHR 0xEF, CHR 0xBC, CHR 0x8C, CHR 0xE8, CHR 0xAF, CHR 0xB7, CHR 0xE7, CHR 0xA8, CHR 0x8D, CHR 0xE5, CHR 0x90, CHR 0x8E, CHR 0xE5, CHR 0x86, CHR 0x8D, CHR 0xE8, CHR 0xAF, CHR 0x95]),
    (''502.'' @ LANG_ZH_TW, [CHR 0xE5, CHR 0x8F, CHR 0x82, CHR 0xE6, CHR 0x95, CHR 0xB0, CHR 0xE9, CHR 0x94, CHR 0x99, CHR 0xE8, CHR 0xAF, CHR 0xAF]),
    (''502.'' @ LANG_EN_US, ''Fecthing informations from wechat'' @ [CHR 0x27] @ ''s endpoint has been fail, Please try later!''),
    (''10302.'' @ LANG_ZH_CN, [CHR 0xE5, CHR 0x8A, CHR 0xA0, CHR 0xE5, CHR 0xAF, CHR 0x86, CHR 0xE6, CHR 0x96, CHR 0xB9, CHR 0xE5, CHR 0xBC, CHR 0x8F, CHR 0xE5, CHR 0xB7, CHR 0xB2, CHR 0xE5, CHR 0x8F, CHR 0x98, CHR 0xE6, CHR 0x9B, CHR 0xB4] @ ''!''),
    (''10302.'' @ LANG_ZH_TW, ''Encrypt Method has been changed!''),
    (''10302.'' @ LANG_EN_US, ''Encrypt Method has been changed!'')
  ]"

definition eci18n :: "string \<rightharpoonup> string" where
  "eci18n = map_of (rev eci18n_init)"

section \<open>Decimal rendering (the verb %d of fmt)\<close>

function digits :: "nat \<Rightarrow> string" where
  "digits n = (if n < 10 then [''0123456789'' ! n]
               else digits (n div 10) @ [''0123456789'' ! (n mod 10)])"
  by pat_completeness auto
termination
  by (relation "measure id") auto

definition itoa :: "int \<Rightarrow> string" where
  "itoa i = (if i < 0 then CHR ''-'' # digits (nat (- i)) else digits (nat i))"

text \<open>\<^verbatim>\<open>fmt.Sprintf("%d.%s", c, tag)\<close>: the key of the localization table.\<close>

definition i18n_key :: "int \<Rightarrow> string \<Rightarrow> string" where
  "i18n_key c tag = itoa c @ ''.'' @ tag"

section \<open>The reply struct and the store of reply objects\<close>

record reply =
  httpCode :: int
  ec :: int
  em :: string
  lang :: string
  data :: "jvalue option"

text \<open>
  Every method of the source has a pointer receiver \<^verbatim>\<open>*reply\<close>, and the canonical
  replies are shared pointers. A pointer is an address into the store; the store is the
  list of the reply objects allocated so far, and a new object gets the next address.
  An address outside the store is the nil pointer: dereferencing it panics.
\<close>

type_synonym heap = "reply list"

definition NewReply :: "heap \<Rightarrow> int \<Rightarrow> int \<Rightarrow> string \<Rightarrow> nat \<times> heap" where
  "NewReply h c e m =
     (length h, h @ [\<lparr>httpCode = c, ec = e, em = m, lang = LANG_DEFAULT, data = None\<rparr>])"

definition WithHTTPCode :: "heap \<Rightarrow> nat \<Rightarrow> int \<Rightarrow> panic + nat \<times> heap" where
  "WithHTTPCode h r c =
     (if r < length h
      then (let clone = h ! r; clone = clone\<lparr>httpCode := c\<rparr> in Inr (length h, h @ [clone]))
      else Inl NilDereference)"

definition HTTPCode :: "heap \<Rightarrow> nat \<Rightarrow> panic + int" where
  "HTTPCode h r = (if r < length h then Inr (httpCode (h ! r)) else Inl NilDereference)"

definition WithEC :: "heap \<Rightarrow> nat \<Rightarrow> int \<Rightarrow> panic + nat \<times> heap" where
  "WithEC h r e =
     (if r < length h
      then (let clone = h ! r; clone = clone\<lparr>ec := e\<rparr> in Inr (length h, h @ [clone]))
      else Inl NilDereference)"

definition EC :: "heap \<Rightarrow> nat \<Rightarrow> panic + int" where
  "EC h r = (if r < length h then Inr (ec (h ! r)) else Inl NilDereference)"

definition WithEM :: "heap \<Rightarrow> nat \<Rightarrow> string \<Rightarrow> panic + nat \<times> heap" where
  "WithEM h r m =
     (if r < length h
      then (let clone = h ! r; clone = clone\<lparr>em := m\<rparr> in Inr (length h, h @ [clone]))
      else Inl NilDereference)"

definition EM :: "heap \<Rightarrow> nat \<Rightarrow> panic + string" where
  "EM h r = (if r < length h then Inr (em (h ! r)) else Inl NilDereference)"

definition WithLang :: "heap \<Rightarrow> nat \<Rightarrow> string \<Rightarrow> panic + nat \<times> heap" where
  "WithLang h r l =
     (if r < length h
      then (let clone = h ! r; clone = clone\<lparr>lang := l\<rparr> in Inr (length h, h @ [clone]))
      else Inl NilDereference)"

text \<open>
  \<^verbatim>\<open>I18n\<close> assigns \<^verbatim>\<open>r.lang\<close> in place before it looks the key up. The result is the
  message, the store after the assignment, and the lines given to \<^verbatim>\<open>log.Printf\<close>.
\<close>

definition I18n :: "heap \<Rightarrow> nat \<Rightarrow> string \<Rightarrow> panic + string \<times> heap \<times> string list" where
  "I18n h r l =
     (if r < length h
      then (let h1 = h[r := (h ! r)\<lparr>lang := l\<rparr>];
                key = i18n_key (ec (h1 ! r)) (lang (h1 ! r))
            in case eci18n key of
                 Some m \<Rightarrow> Inr (m, h1, [])
               | None \<Rightarrow> Inr ('''', h1, [''I18n: invalid code/lang ['' @ key @ '']'']))
      else Inl NilDereference)"

definition WithData :: "heap \<Rightarrow> nat \<Rightarrow> jvalue option \<Rightarrow> panic + nat \<times> heap" where
  "WithData h r d =
     (if r < length h
      then (let clone = h ! r; clone = clone\<lparr>data := d\<rparr> in Inr (length h, h @ [clone]))
      else Inl NilDereference)"

section \<open>The canonical replies (enum.go, package-level variables)\<close>

text \<open>
  The six package-level replies are allocated when the package is loaded, in source order,
  at the addresses 0 to 5. Their composite literals leave \<^verbatim>\<open>lang\<close> at the empty string.
  The messages are those of \<^verbatim>\<open>http.StatusText\<close>.
\<close>

definition init_heap :: heap where
  "init_heap = [
     \<lparr>httpCode = 200, ec = 200, em = '''', lang = '''', data = None\<rparr>,
     \<lparr>httpCode = 400, ec = 400, em = ''Bad Request'', lang = '''', data = None\<rparr>,
     \<lparr>httpCode = 401, ec = 401, em = ''Unauthorized'', lang = '''', data = None\<rparr>,
     \<lparr>httpCode = 404, ec = 404, em = ''Not Found'', lang = '''', data = None\<rparr>,
     \<lparr>httpCode = 405, ec = 405, em = ''Method Not Allowed'', lang = '''', data = None\<rparr>,
     \<lparr>httpCode = 500, ec = 500, em = ''Internal Server Error'', lang = '''', data = None\<rparr>
   ]"

definition OK :: nat where "OK = 0"
definition ErrIllegalparams :: nat where "ErrIllegalparams = 1"
definition ErrUnauthorized :: nat where "ErrUnauthorized = 2"
definition ErrNotFound :: nat where "ErrNotFound = 3"
definition ErrMethodNotAllowed :: nat where "ErrMethodNotAllowed = 4"
definition ErrInternal :: nat where "ErrInternal = 5"

section \<open>Causes: error values and their accumulation\<close>

text \<open>
  A non-nil Go \<^verbatim>\<open>error\<close> that can be a cause. \<open>MultiError es\<close> is the
  \<^verbatim>\<open>*multiError\<close> of go.uber.org/multierr (v1.7.0 in go.mod) with the constituents
  \<open>es\<close>; \<open>Leaf s\<close> is an error of any other dynamic type, \<open>s\<close> being the text that
  the verb \<^verbatim>\<open>%+v\<close> prints for it. The nil error is \<open>None\<close> of \<open>error option\<close>.
\<close>

datatype error = Leaf string | MultiError "error list"

text \<open>
  The library functions that \<^verbatim>\<open>WithErr\<close> and \<^verbatim>\<open>Error\<close> call, after the library's
  source: \<^verbatim>\<open>multierr.Append\<close> returns the other argument when one is nil and otherwise a
  \<^verbatim>\<open>*multiError\<close> of the constituents of the left followed by those of the right (a
  \<^verbatim>\<open>*multiError\<close> argument is flattened, any other error counts as one constituent);
  \<^verbatim>\<open>multierr.AppendInto\<close> does nothing for a nil error and otherwise stores
  \<^verbatim>\<open>Append(*into, err)\<close> into \<^verbatim>\<open>*into\<close>.
\<close>

fun errors_of :: "error \<Rightarrow> error list" where
  "errors_of (MultiError es) = es"
| "errors_of e = [e]"

fun Append :: "error option \<Rightarrow> error option \<Rightarrow> error option" where
  "Append None right = right"
| "Append left None = left"
| "Append (Some l) (Some r) = Some (MultiError (errors_of l @ errors_of r))"

definition AppendInto :: "error option \<Rightarrow> error option \<Rightarrow> error option" where
  "AppendInto into e = (case e of None \<Rightarrow> into | Some _ \<Rightarrow> Append into e)"

text \<open>
  The verb \<^verbatim>\<open>%+v\<close> on a \<^verbatim>\<open>*multiError\<close> writes the multi-line form: a heading, then
  each constituent after a separator, its own \<^verbatim>\<open>%+v\<close> text with every line after the
  first indented (\<^verbatim>\<open>writePrefixLine\<close>).
\<close>

fun writePrefixLine :: "string \<Rightarrow> string \<Rightarrow> string" where
  "writePrefixLine p [] = []"
| "writePrefixLine p [c] = [c]"
| "writePrefixLine p (c # d # s) =
     (if c = CHR 0x0A then c # p @ writePrefixLine p (d # s) else c # writePrefixLine p (d # s))"

definition multilinePrefix :: string where
  "multilinePrefix = ''the following errors occurred:''"

definition multilineSeparator :: string where
  "multilineSeparator = CHR 0x0A # '' -  ''"

definition multilineIndent :: string where
  "multilineIndent = ''    ''"

definition writeItem :: "string \<Rightarrow> string" where
  "writeItem s = multilineSeparator @ writePrefixLine multilineIndent s"

fun verbose :: "error \<Rightarrow> string" where
  "verbose (Leaf s) = s"
| "verbose (MultiError es) = multilinePrefix @ concat (map (\<lambda>e. writeItem (verbose e)) es)"

text \<open>
  \<^verbatim>\<open>fmt.Sprintf("%+v", errors.WithMessage(cause, msg))\<close> for a non-nil cause
  (github.com/pkg/errors v0.9.1): the \<^verbatim>\<open>%+v\<close> text of the cause, a newline, the message.
\<close>

definition WithMessage_verbose :: "error \<Rightarrow> string \<Rightarrow> string" where
  "WithMessage_verbose cause msg = verbose cause @ [CHR 0x0A] @ msg"

section \<open>The Reply interface and the error reply\<close>

text \<open>
  A value of the interface \<^verbatim>\<open>Reply\<close> is nil, a \<^verbatim>\<open>*reply\<close> or a \<^verbatim>\<open>*errReply\<close>
  (\<^verbatim>\<open>errReply\<close> embeds \<^verbatim>\<open>Reply\<close> and so has its whole method set). The struct
  \<^verbatim>\<open>errReply\<close> has the embedded \<^verbatim>\<open>Reply\<close>, the cause \<^verbatim>\<open>err\<close> and the map
  \<^verbatim>\<open>fields\<close> (\<open>efields\<close> here; \<open>None\<close> is the nil map, and the map is kept as an
  association list with one entry for a key).
\<close>

datatype Reply = NilReply | ReplyPtr nat | ErrReplyPtr errReply
and errReply =
  ErrReply (Reply: Reply) (err: "error option") (efields: "(string \<times> jvalue) list option")

text \<open>
  Calls through the interface. On an \<^verbatim>\<open>errReply\<close> the promoted method goes to the
  embedded \<^verbatim>\<open>Reply\<close>; on the nil interface the call panics.
\<close>

fun Reply_HTTPCode :: "heap \<Rightarrow> Reply \<Rightarrow> panic + int" where
  "Reply_HTTPCode h NilReply = Inl NilDereference"
| "Reply_HTTPCode h (ReplyPtr r) = HTTPCode h r"
| "Reply_HTTPCode h (ErrReplyPtr (ErrReply p e f)) = Reply_HTTPCode h p"

fun Reply_EC :: "heap \<Rightarrow> Reply \<Rightarrow> panic + int" where
  "Reply_EC h NilReply = Inl NilDereference"
| "Reply_EC h (ReplyPtr r) = EC h r"
| "Reply_EC h (ErrReplyPtr (ErrReply p e f)) = Reply_EC h p"

fun Reply_EM :: "heap \<Rightarrow> Reply \<Rightarrow> panic + string" where
  "Reply_EM h NilReply = Inl NilDereference"
| "Reply_EM h (ReplyPtr r) = EM h r"
| "Reply_EM h (ErrReplyPtr (ErrReply p e f)) = Reply_EM h p"

definition reset :: "errReply \<Rightarrow> errReply" where
  "reset er =
     (let er = ErrReply NilReply (err er) (efields er);
          er = ErrReply (Reply er) None (efields er);
          er = ErrReply (Reply er) (err er) None
      in er)"

definition WithField :: "errReply \<Rightarrow> string \<Rightarrow> jvalue \<Rightarrow> errReply" where
  "WithField er field v =
     (let m = (case efields er of None \<Rightarrow> [] | Some m \<Rightarrow> m)
      in ErrReply (Reply er) (err er) (Some (AList.update field v m)))"

definition WithFields :: "errReply \<Rightarrow> (string \<times> jvalue) list \<Rightarrow> errReply" where
  "WithFields er fs =
     (let m = (case efields er of None \<Rightarrow> [] | Some m \<Rightarrow> m)
      in ErrReply (Reply er) (err er) (Some (fold (\<lambda>(field, v). AList.update field v) fs m)))"

definition WithErr :: "errReply \<Rightarrow> error option \<Rightarrow> errReply" where
  "WithErr er e = ErrReply (Reply er) (AppendInto (err er) e) (efields er)"

definition Error :: "heap \<Rightarrow> errReply \<Rightarrow> panic + string" where
  "Error h r =
     (case err r of
        Some cause \<Rightarrow>
          (case Reply_EM h (Reply r) of
             Inl p \<Rightarrow> Inl p
           | Inr m \<Rightarrow> Inr (WithMessage_verbose cause m))
      | None \<Rightarrow>
          (case Reply_EC h (Reply r) of
             Inl p \<Rightarrow> Inl p
           | Inr c \<Rightarrow>
               (case Reply_EM h (Reply r) of
                  Inl p \<Rightarrow> Inl p
                | Inr m \<Rightarrow> Inr (''code: '' @ itoa c @ '', '' @ m))))"

section \<open>The pool of error replies\<close>

text \<open>
  \<^verbatim>\<open>errReplyPool\<close> is a \<^verbatim>\<open>sync.Pool\<close>: \<^verbatim>\<open>Get\<close> hands out some instance that was
  \<^verbatim>\<open>Put\<close> and not taken since, in the state it was left in, or else the result of
  \<^verbatim>\<open>New\<close>. Which one is the runtime's choice; the argument \<open>pick\<close> is that choice
  (\<open>Some i\<close> for the pooled instance at position \<open>i\<close>, anything else for \<^verbatim>\<open>New\<close>).
\<close>

type_synonym pool = "errReply list"

definition errReplyPool_New :: errReply where
  "errReplyPool_New = ErrReply NilReply None None"

definition pool_Get :: "pool \<Rightarrow> nat option \<Rightarrow> errReply \<times> pool" where
  "pool_Get p pick =
     (case pick of
        Some i \<Rightarrow> (if i < length p then (p ! i, take i p @ drop (Suc i) p)
                   else (errReplyPool_New, p))
      | None \<Rightarrow> (errReplyPool_New, p))"

definition pool_Put :: "pool \<Rightarrow> errReply \<Rightarrow> pool" where
  "pool_Put p er = er # p"

text \<open>\<^verbatim>\<open>Context.Abort\<close> (context.go): the acquisition of an error reply.\<close>

definition Abort :: "pool \<Rightarrow> nat option \<Rightarrow> Reply \<Rightarrow> errReply \<times> pool" where
  "Abort p pick rp =
     (let (er, p') = pool_Get p pick;
          er = reset er;
          er = ErrReply rp (err er) (efields er)
      in (er, p'))"

section \<open>The response envelope (context.go)\<close>

text \<open>
  The struct \<^verbatim>\<open>HttpApiResponse\<close>, with its fields \<^verbatim>\<open>EC\<close>, \<^verbatim>\<open>EM\<close> and \<^verbatim>\<open>Data\<close>
  in this order.
\<close>

datatype HttpApiResponse = HttpApiResponse int string "jvalue option"

text \<open>
  encoding/json writes a Go string as a JSON string of the same text, except that it
  writes U+FFFD for every byte at which \<^verbatim>\<open>utf8.DecodeRuneInString\<close> finds no valid
  encoding. \<open>decode_size\<close> is the size of the encoding at the head of the bytes, 0 when
  there is none (first bytes and the ranges of the second byte as in unicode/utf8);
  \<open>json_string\<close> is the text of the JSON string written, in UTF-8, and \<open>valid_utf8\<close>
  says that every byte belongs to a valid encoding.
\<close>

definition cont :: "nat \<Rightarrow> bool" where
  "cont b = (0x80 \<le> b \<and> b \<le> 0xBF)"

definition second_ok :: "nat \<Rightarrow> nat \<Rightarrow> bool" where
  "second_ok b0 b1 =
     (if b0 = 0xE0 then 0xA0 \<le> b1 \<and> b1 \<le> 0xBF
      else if b0 = 0xED then 0x80 \<le> b1 \<and> b1 \<le> 0x9F
      else if b0 = 0xF0 then 0x90 \<le> b1 \<and> b1 \<le> 0xBF
      else if b0 = 0xF4 then 0x80 \<le> b1 \<and> b1 \<le> 0x8F
      else cont b1)"

fun decode_size :: "nat list \<Rightarrow> nat" where
  "decode_size [] = 0"
| "decode_size (b0 # bs) =
     (if b0 < 0x80 then 1
      else if b0 < 0xC2 \<or> 0xF4 < b0 then 0
      else (case bs of
              [] \<Rightarrow> 0
            | b1 # bs1 \<Rightarrow>
                if \<not> second_ok b0 b1 then 0
                else if b0 < 0xE0 then 2
                else (case bs1 of
                        [] \<Rightarrow> 0
                      | b2 # bs2 \<Rightarrow>
                          if \<not> cont b2 then 0
                          else if b0 < 0xF0 then 3
                          else (case bs2 of
                                  [] \<Rightarrow> 0
                                | b3 # bs3 \<Rightarrow> if \<not> cont b3 then 0 else 4))))"

text \<open>
  The first argument counts the bytes still to copy of an encoding already accepted.
\<close>

fun coerce_from :: "nat \<Rightarrow> string \<Rightarrow> string" where
  "coerce_from k [] = []"
| "coerce_from (Suc k) (c # cs) = c # coerce_from k cs"
| "coerce_from 0 (c # cs) =
     (let n = decode_size (map of_char (c # cs))
      in if n = 0 then [CHR 0xEF, CHR 0xBF, CHR 0xBD] @ coerce_from 0 cs
         else c # coerce_from (n - 1) cs)"

definition json_string :: "string \<Rightarrow> string" where
  "json_string s = coerce_from 0 s"



text \<open>
  The members of the JSON object that encoding/json writes for the struct, as its tags
  say: \<^verbatim>\<open>json:"ec"\<close>, \<^verbatim>\<open>json:"em"\<close> and \<^verbatim>\<open>json:"data,omitempty"\<close>. Only the last
  tag has \<^verbatim>\<open>omitempty\<close>; on a field of interface type it drops the member when the
  interface is nil. The layout of the text (echo indents it in debug mode) is the
  encoder's and is not modelled: a document is the list of its members.
\<close>

definition json_members :: "HttpApiResponse \<Rightarrow> (string \<times> jvalue) list" where
  "json_members v =
     (case v of HttpApiResponse c m d \<Rightarrow>
        [(''ec'', JInt c), (''em'', JStr (json_string m))] @
        (case d of None \<Rightarrow> [] | Some x \<Rightarrow> [(''data'', x)]))"

text \<open>
  A non-nil \<^verbatim>\<open>error\<close> returned by a handler: a \<^verbatim>\<open>*errReply\<close>, an
  \<^verbatim>\<open>*echo.HTTPError\<close> (its code and the text of its message) or any other error.
\<close>

datatype go_error = EReply errReply | EHTTP int string | EOther error

record Request =
  Method :: string
  Host :: string
  RequestURI :: string
  Proto :: string
  UserAgent :: string

text \<open>
  The response of the context (echo's \<^verbatim>\<open>Response\<close>): whether the header was written,
  the field \<^verbatim>\<open>Status\<close>, and the JSON documents written to the body so far.
\<close>

record Response =
  Committed :: bool
  Status :: int
  Body :: "(string \<times> jvalue) list list"

text \<open>
  The framework (echo v4.5.0 on net/http), after its source.
  \<^verbatim>\<open>Response.WriteHeader(code)\<close> does nothing on a committed response; otherwise it
  stores the status and writes the header, where net/http panics for a code outside 100
  to 999, and then marks the response committed.
  \<^verbatim>\<open>Response.Write\<close> first writes the header of an uncommitted response, with the stored
  status and with 200 for the status 0, then the bytes; \<open>fail\<close> is the error of the
  connection when that write fails.
  \<^verbatim>\<open>c.JSON(code, v)\<close> stores the status and writes the encoded \<open>v\<close> with
  \<^verbatim>\<open>Response.Write\<close>. \<^verbatim>\<open>c.NoContent(code)\<close> is \<^verbatim>\<open>WriteHeader(code)\<close> and returns nil.
  A result is the panic or the returned error, and the response as the call left it.
\<close>

definition WriteHeader :: "Response \<Rightarrow> int \<Rightarrow> panic option \<times> Response" where
  "WriteHeader rs code =
     (if Committed rs then (None, rs)
      else (let rs = rs\<lparr>Status := code\<rparr>
            in if Status rs < 100 \<or> 999 < Status rs then (Some InvalidWriteHeaderCode, rs)
               else (None, rs\<lparr>Committed := True\<rparr>)))"

definition Response_Write :: "go_error option \<Rightarrow> Response \<Rightarrow> (string \<times> jvalue) list \<Rightarrow> (panic + go_error option) \<times> Response" where
  "Response_Write fail rs doc =
     (let (p, rs) = (if \<not> Committed rs
                     then (let rs = (if Status rs = 0 then rs\<lparr>Status := 200\<rparr> else rs)
                           in WriteHeader rs (Status rs))
                     else (None, rs))
      in case p of
           Some x \<Rightarrow> (Inl x, rs)
         | None \<Rightarrow>
             (case fail of
                Some e \<Rightarrow> (Inr (Some e), rs)
              | None \<Rightarrow> (Inr None, rs\<lparr>Body := Body rs @ [doc]\<rparr>)))"

definition JSON :: "go_error option \<Rightarrow> Response \<Rightarrow> int \<Rightarrow> HttpApiResponse \<Rightarrow> (panic + go_error option) \<times> Response" where
  "JSON fail rs code v =
     (let rs = rs\<lparr>Status := code\<rparr> in Response_Write fail rs (json_members v))"

definition NoContent :: "Response \<Rightarrow> int \<Rightarrow> (panic + go_error option) \<times> Response" where
  "NoContent rs code =
     (case WriteHeader rs code of
        (Some p, rs) \<Rightarrow> (Inl p, rs)
      | (None, rs) \<Rightarrow> (Inr None, rs))"

text \<open>
  \<^verbatim>\<open>Context.SetPayload\<close>. A panic inside \<^verbatim>\<open>c.JSON\<close> is a panic of the call.
\<close>

definition SetPayload :: "heap \<Rightarrow> Response \<Rightarrow> go_error option \<Rightarrow> Reply \<Rightarrow> panic + go_error option \<times> Response" where
  "SetPayload h rs fail payload =
     (case payload of
        ReplyPtr p \<Rightarrow>
          (if p < length h
           then (if httpCode (h ! p) \<ge> 400
                 then Inr (Some (EReply (ErrReply (ReplyPtr p) None None)), rs)
                 else (case JSON fail rs (httpCode (h ! p))
                               (HttpApiResponse (ec (h ! p)) (em (h ! p)) (data (h ! p))) of
                         (Inl x, rs') \<Rightarrow> Inl x
                       | (Inr r, rs') \<Rightarrow> Inr (r, rs')))
           else Inl NilDereference)
      | _ \<Rightarrow> Inl TypeAssertion)"

section \<open>The default error handler and the logging middleware\<close>

datatype level = ErrorLevel | WarnLevel | InfoLevel

text \<open>
  What the logrus entry is given: the level, the fields and the error. The field
  \<^verbatim>\<open>latency\<close> is read from the clock and is left out.
\<close>

record entry =
  lvl :: level
  log_fields :: "(string \<times> jvalue) list"
  log_error :: "go_error option"

text \<open>
  The state a request runs in: the store of replies, the pool, the request and the
  response of the context, what \<^verbatim>\<open>e.Logger.Error\<close> received and the entries logged.
\<close>

record world =
  store :: heap
  epool :: pool
  request :: Request
  response :: Response
  echo_log :: "go_error list"
  entries :: "entry list"

text \<open>
  The settings of a run: \<^verbatim>\<open>e.Debug\<close>, the pool's choice at the next \<^verbatim>\<open>Get\<close>, and the
  error of the connection at the next write of a body, if it fails.
\<close>

record env =
  Debug :: bool
  pick :: "nat option"
  json_fail :: "go_error option"

text \<open>
  \<^verbatim>\<open>DefaultHTTPErrorHandler\<close>. Its two branches that take an instance from the pool
  differ only in the arguments of \<^verbatim>\<open>NewReply\<close>; \<open>acquire_for\<close> is that branch.
  The deferred \<^verbatim>\<open>Put\<close> runs on every path after its registration, also when a later
  call panics, as \<^verbatim>\<open>c.NoContent\<close> and \<^verbatim>\<open>c.JSON\<close> do on a status they cannot write;
  the result is the panic, if any, and the state.
\<close>

definition acquire_for :: "env \<Rightarrow> int \<Rightarrow> string \<Rightarrow> world \<Rightarrow> errReply \<times> world" where
  "acquire_for e code msg w =
     (let (er, p') = pool_Get (epool w) (pick e);
          er = reset er;
          (a, h') = NewReply (store w) code code msg;
          er = ErrReply (ReplyPtr a) (err er) (efields er)
      in (er, w\<lparr>store := h', epool := p'\<rparr>))"

definition DefaultHTTPErrorHandler :: "env \<Rightarrow> go_error \<Rightarrow> world \<Rightarrow> panic option \<times> world" where
  "DefaultHTTPErrorHandler e x w =
     (if Committed (response w) then (None, w)
      else
        let (er, w1) = (case x of
                          EReply er \<Rightarrow> (er, w)
                        | EHTTP code msg \<Rightarrow> acquire_for e code msg w
                        | EOther _ \<Rightarrow> acquire_for e 500 ''Internal Server Error'' w);
            released = w1\<lparr>epool := pool_Put (epool w1) er\<rparr>
        in case Reply_EC (store w1) (Reply er) of
             Inl p \<Rightarrow> (Some p, released)
           | Inr code \<Rightarrow>
        (case Reply_EM (store w1) (Reply er) of
             Inl p \<Rightarrow> (Some p, released)
           | Inr m \<Rightarrow>
        (case (if Debug e then Error (store w1) er else Inr m) of
             Inl p \<Rightarrow> (Some p, released)
           | Inr message \<Rightarrow>
        (if Method (request w1) = ''HEAD''
         then (case NoContent (response w1) code of
                 (Inl p, rs) \<Rightarrow> (Some p, released\<lparr>response := rs\<rparr>)
               | (Inr r, rs) \<Rightarrow>
                   (None, released\<lparr>response := rs,
                      echo_log := echo_log w1 @ (case r of None \<Rightarrow> [] | Some y \<Rightarrow> [y])\<rparr>))
         else (case Reply_HTTPCode (store w1) (Reply er) of
                 Inl p \<Rightarrow> (Some p, released)
               | Inr hc \<Rightarrow>
                   (case JSON (json_fail e) (response w1) hc (HttpApiResponse code message None) of
                      (Inl p, rs) \<Rightarrow> (Some p, released\<lparr>response := rs\<rparr>)
                    | (Inr r, rs) \<Rightarrow>
                        (None, released\<lparr>response := rs,
                           echo_log := echo_log w1 @ (case r of None \<Rightarrow> [] | Some y \<Rightarrow> [y])\<rparr>)))))))"

text \<open>
  \<^verbatim>\<open>LoggerWithConfig\<close> (mw_logger.go). A handler maps the state to a panic or to its
  returned error and the new state. \<^verbatim>\<open>c.Error(err)\<close> calls the error handler of the
  echo instance, which \<^verbatim>\<open>New\<close> sets to \<^verbatim>\<open>DefaultHTTPErrorHandler\<close>. The request and
  the response are read through the pointers taken before \<^verbatim>\<open>next\<close> ran, so in the state
  it left.
\<close>

type_synonym handler = "world \<Rightarrow> panic + go_error option \<times> world"

definition base_fields :: "world \<Rightarrow> (string \<times> jvalue) list" where
  "base_fields w =
     [(''host'', JStr (Host (request w))),
      (''uri'', JStr (RequestURI (request w))),
      (''method'', JStr (Method (request w))),
      (''protocol'', JStr (Proto (request w))),
      (''user_agent'', JStr (UserAgent (request w))),
      (''status'', JInt (Status (response w)))]"

definition with_fields :: "(string \<times> jvalue) list \<Rightarrow> (string \<times> jvalue) list option \<Rightarrow> (string \<times> jvalue) list" where
  "with_fields base fs =
     (case fs of None \<Rightarrow> base | Some m \<Rightarrow> fold (\<lambda>(k, v). AList.update k v) m base)"

definition emit :: "level \<Rightarrow> go_error option \<Rightarrow> world \<Rightarrow> world" where
  "emit l x w =
     (let fs = (case x of
                  Some (EReply er) \<Rightarrow> with_fields (base_fields w) (efields er)
                | _ \<Rightarrow> base_fields w)
      in w\<lparr>entries := entries w @ [\<lparr>lvl = l, log_fields = fs, log_error = x\<rparr>]\<rparr>)"

definition LoggerWithConfig :: "(world \<Rightarrow> bool) option \<Rightarrow> env \<Rightarrow> handler \<Rightarrow> handler" where
  "LoggerWithConfig Skipper e next w =
     (if (case Skipper of None \<Rightarrow> False | Some skip \<Rightarrow> skip w) then next w
      else
        case next w of
          Inl p \<Rightarrow> Inl p
        | Inr (x, w1) \<Rightarrow>
            (case (case x of None \<Rightarrow> (None, w1) | Some y \<Rightarrow> DefaultHTTPErrorHandler e y w1) of
               (Some p, w2) \<Rightarrow> Inl p
             | (None, w2) \<Rightarrow>
                 (if x \<noteq> None
                  then (if Status (response w2) \<ge> 500
                        then Inr (x, emit ErrorLevel x w2)
                        else Inr (x, emit WarnLevel x w2))
                  else Inr (x, emit InfoLevel x w2))))"

section \<open>Properties and scenarios\<close>

text \<open>
  What a copying method owes its caller: the result \<open>res\<close> of a call on the pointer \<open>r\<close>
  in the store \<open>h\<close> is a pointer to a new object that holds \<open>expected\<close>, in a store
  whose objects at the old addresses are those of \<open>h\<close>.
\<close>

definition copy_on_write :: "heap \<Rightarrow> nat \<Rightarrow> panic + nat \<times> heap \<Rightarrow> reply \<Rightarrow> bool" where
  "copy_on_write h r res expected =
     (case res of
        Inl _ \<Rightarrow> False
      | Inr (r', h') \<Rightarrow>
          r' \<noteq> r \<and> length h \<le> r' \<and> r' < length h' \<and> h' ! r' = expected \<and> take (length h) h' = h)"

text \<open>
  The states of the scenarios: a response nothing was written to, the reply of
  \<^verbatim>\<open>NewReply(200, 200, "ok").WithData({"x":1})\<close> given to \<^verbatim>\<open>SetPayload\<close>, a GET
  request in the initial store, and the settings without debug mode.
\<close>

definition blank_response :: Response where
  "blank_response = \<lparr>Committed = False, Status = 200, Body = []\<rparr>"


definition world0 :: world where
  "world0 = \<lparr>store = init_heap, epool = [],
             request = \<lparr>Method = ''GET'', Host = ''localhost'', RequestURI = ''/v1/hello'',
                        Proto = ''HTTP/1.1'', UserAgent = ''curl''\<rparr>,
             response = blank_response, echo_log = [], entries = []\<rparr>"

definition env0 :: env where
  "env0 = \<lparr>Debug = False, pick = None, json_fail = None\<rparr>"

text \<open>
  The handlers of the scenarios: one writes a 500 response itself and returns nil, the
  others return \<^verbatim>\<open>c.Abort(...)\<close> of a canonical reply, as the handlers of
  uecho_test.go do. \<open>used_reply\<close> is the error reply that \<open>abort_internal\<close> returns.
\<close>

definition direct_500 :: handler where
  "direct_500 w =
     (case JSON None (response w) 500 (HttpApiResponse 500 ''down'' None) of
        (Inl p, rs) \<Rightarrow> Inl p
      | (Inr r, rs) \<Rightarrow> Inr (r, w\<lparr>response := rs\<rparr>))"

definition abort_ok :: handler where
  "abort_ok w =
     (let (er, p') = Abort (epool w) None (ReplyPtr OK)
      in Inr (Some (EReply er), w\<lparr>epool := p'\<rparr>))"

definition used_reply :: errReply where
  "used_reply = WithField (WithErr (fst (Abort [] None (ReplyPtr ErrInternal))) (Some (Leaf ''db down'')))
                  ''rpc'' (JStr ''/svc'')"

definition abort_internal :: handler where
  "abort_internal w =
     (let (er, p') = Abort (epool w) None (ReplyPtr ErrInternal);
          er = WithField (WithErr er (Some (Leaf ''db down''))) ''rpc'' (JStr ''/svc'')
      in Inr (Some (EReply er), w\<lparr>epool := p'\<rparr>))"

definition abort_bad_request :: handler where
  "abort_bad_request w =
     (let (er, p') = Abort (epool w) None (ReplyPtr ErrIllegalparams);
          er = WithField er ''rpc'' (JStr ''/svc'')
      in Inr (Some (EReply er), w\<lparr>epool := p'\<rparr>))"

text \<open>
  What a run of a handler chain shows: the error it returned, the status of the response
  and the levels of the entries logged.
\<close>

definition observed :: "panic + go_error option \<times> world \<Rightarrow> (go_error option \<times> int \<times> level list) option" where
  "observed res =
     (case res of
        Inl _ \<Rightarrow> None
      | Inr (x, w) \<Rightarrow> Some (x, Status (response w), map lvl (entries w)))"

section \<open>Copy on write\<close>

text \<open>
  C1. For a reply pointer \<open>r\<close> that is live in the store, each of \<^verbatim>\<open>WithHTTPCode\<close>,
  \<^verbatim>\<open>WithEC\<close>, \<^verbatim>\<open>WithEM\<close>, \<^verbatim>\<open>WithLang\<close> and \<^verbatim>\<open>WithData\<close> returns a pointer to a
  new reply whose targeted field is the argument and whose other fields are those of
  \<open>r\<close>; the object at \<open>r\<close>, like every other object of the store, is unchanged.
\<close>

theorem With_copy_on_write:
  assumes "r < length h"
  shows "copy_on_write h r (WithHTTPCode h r c)
           \<lparr>httpCode = c, ec = ec (h ! r), em = em (h ! r), lang = lang (h ! r), data = data (h ! r)\<rparr>
       \<and> copy_on_write h r (WithEC h r e)
           \<lparr>httpCode = httpCode (h ! r), ec = e, em = em (h ! r), lang = lang (h ! r), data = data (h ! r)\<rparr>
       \<and> copy_on_write h r (WithEM h r m)
           \<lparr>httpCode = httpCode (h ! r), ec = ec (h ! r), em = m, lang = lang (h ! r), data = data (h ! r)\<rparr>
       \<and> copy_on_write h r (WithLang h r l)
           \<lparr>httpCode = httpCode (h ! r), ec = ec (h ! r), em = em (h ! r), lang = l, data = data (h ! r)\<rparr>
       \<and> copy_on_write h r (WithData h r d)
           \<lparr>httpCode = httpCode (h ! r), ec = ec (h ! r), em = em (h ! r), lang = lang (h ! r), data = d\<rparr>"
  using assms
  by (simp add: copy_on_write_def WithHTTPCode_def WithEC_def WithEM_def WithLang_def WithData_def)

theorem With_copy_on_write_witness:
  "OK < length init_heap
   \<and> copy_on_write init_heap OK (WithHTTPCode init_heap OK 201)
        \<lparr>httpCode = 201, ec = 200, em = '''', lang = '''', data = None\<rparr>
   \<and> copy_on_write init_heap OK (WithEC init_heap OK 0)
        \<lparr>httpCode = 200, ec = 0, em = '''', lang = '''', data = None\<rparr>
   \<and> copy_on_write init_heap OK (WithEM init_heap OK ''done'')
        \<lparr>httpCode = 200, ec = 200, em = ''done'', lang = '''', data = None\<rparr>
   \<and> copy_on_write init_heap OK (WithLang init_heap OK LANG_EN_US)
        \<lparr>httpCode = 200, ec = 200, em = '''', lang = LANG_EN_US, data = None\<rparr>
   \<and> copy_on_write init_heap OK (WithData init_heap OK (Some (JInt 1)))
        \<lparr>httpCode = 200, ec = 200, em = '''', lang = '''', data = Some (JInt 1)\<rparr>"
  using With_copy_on_write [of OK init_heap 201 0 "''done''" LANG_EN_US "Some (JInt 1)"]
  by (simp add: OK_def init_heap_def)

section \<open>Localization\<close>

text \<open>
  C5. For a live reply with business code \<open>c\<close> and a language tag: when the key made of
  the decimal digits of \<open>c\<close>, a dot and the tag is in the table, \<^verbatim>\<open>I18n\<close> returns the
  configured string and the language of the reply is the tag afterwards; when the key is
  absent, \<^verbatim>\<open>I18n\<close> returns the empty string without a panic and gives one line to the
  log.
\<close>

theorem I18n_lookup:
  assumes "r < length h"
  shows "(eci18n (itoa (ec (h ! r)) @ ''.'' @ tag) = Some m \<longrightarrow>
            I18n h r tag = Inr (m, h[r := (h ! r)\<lparr>lang := tag\<rparr>], []))
       \<and> (eci18n (itoa (ec (h ! r)) @ ''.'' @ tag) = None \<longrightarrow>
            I18n h r tag = Inr ('''', h[r := (h ! r)\<lparr>lang := tag\<rparr>],
              [''I18n: invalid code/lang ['' @ itoa (ec (h ! r)) @ ''.'' @ tag @ '']'']))"
  using assms by (simp add: I18n_def i18n_key_def Let_def)

text \<open>The keys and entries of the witness, as init() writes them.\<close>

lemma itoa_codes: "itoa 200 = ''200''" "itoa 500 = ''500''" "itoa 10302 = ''10302''"
  by (simp_all add: itoa_def)

lemma eci18n_entries:
  "eci18n ''200.en-US'' = Some ''Success''"
  "eci18n ''500.en-US'' = Some ''Server Internal Error !''"
  "eci18n ''10302.zh-TW'' = Some ''Encrypt Method has been changed!''"
  "eci18n ''200.fr-FR'' = None"
  "eci18n ''500.zh'' = None"
  by code_simp+

theorem I18n_lookup_witness:
  "OK < length init_heap \<and> ErrInternal < length init_heap
   \<and> ec (init_heap ! OK) = 200 \<and> ec (init_heap ! ErrInternal) = 500
   \<and> eci18n ''200.en-US'' = Some ''Success''
   \<and> I18n init_heap OK ''en-US''
        = Inr (''Success'', init_heap[OK := (init_heap ! OK)\<lparr>lang := ''en-US''\<rparr>], [])
   \<and> eci18n ''500.en-US'' = Some ''Server Internal Error !''
   \<and> I18n init_heap ErrInternal ''en-US''
        = Inr (''Server Internal Error !'',
               init_heap[ErrInternal := (init_heap ! ErrInternal)\<lparr>lang := ''en-US''\<rparr>], [])
   \<and> eci18n ''10302.zh-TW'' = Some ''Encrypt Method has been changed!''
   \<and> I18n [\<lparr>httpCode = 200, ec = 10302, em = '''', lang = '''', data = None\<rparr>] 0 ''zh-TW''
        = Inr (''Encrypt Method has been changed!'',
               [\<lparr>httpCode = 200, ec = 10302, em = '''', lang = ''zh-TW'', data = None\<rparr>], [])
   \<and> eci18n ''200.fr-FR'' = None
   \<and> I18n init_heap OK ''fr-FR''
        = Inr ('''', init_heap[OK := (init_heap ! OK)\<lparr>lang := ''fr-FR''\<rparr>],
               [''I18n: invalid code/lang [200.fr-FR]''])
   \<and> eci18n ''500.zh'' = None
   \<and> I18n init_heap ErrInternal ''zh''
        = Inr ('''', init_heap[ErrInternal := (init_heap ! ErrInternal)\<lparr>lang := ''zh''\<rparr>],
               [''I18n: invalid code/lang [500.zh]''])"
proof -
  have r: "OK < length init_heap" "ErrInternal < length init_heap"
    by (simp_all add: OK_def ErrInternal_def init_heap_def)
  have c: "ec (init_heap ! OK) = 200" "ec (init_heap ! ErrInternal) = 500"
    by (simp_all add: OK_def ErrInternal_def init_heap_def)
  have r1: "0 < length [\<lparr>httpCode = 200, ec = 10302, em = '''', lang = '''', data = None\<rparr>]"
    by simp
  show ?thesis
    using I18n_lookup [OF r(1), of "''en-US''" "''Success''"]
      I18n_lookup [OF r(2), of "''en-US''" "''Server Internal Error !''"]
      I18n_lookup [OF r1, of "''zh-TW''" "''Encrypt Method has been changed!''"]
      I18n_lookup [OF r(1), of "''fr-FR''" "''''"]
      I18n_lookup [OF r(2), of "''zh''" "''''"]
      r eci18n_entries
    by (simp add: c itoa_codes)
qed

section \<open>The pool discipline\<close>

lemma used_reply_eq:
  "used_reply = ErrReply (ReplyPtr ErrInternal) (Some (Leaf ''db down'')) (Some [(''rpc'', JStr ''/svc'')])"
  by (simp add: used_reply_def Abort_def pool_Get_def reset_def errReplyPool_New_def WithErr_def
      WithField_def AppendInto_def)

lemma handler_pool:
  assumes "\<not> Committed (response w)"
  shows "epool (snd (DefaultHTTPErrorHandler e (EReply er) w)) = er # epool w"
  using assms
  by (simp add: DefaultHTTPErrorHandler_def pool_Put_def Let_def split: sum.splits prod.splits)

text \<open>
  The handler puts a used error reply into the pool with its reply, cause and fields
  still in place: what it puts differs from the instance after \<^verbatim>\<open>reset()\<close>.
\<close>

theorem release_counterexample:
  "epool (snd (DefaultHTTPErrorHandler env0 (EReply used_reply) world0))
     = [ErrReply (ReplyPtr ErrInternal) (Some (Leaf ''db down'')) (Some [(''rpc'', JStr ''/svc'')])]
   \<and> reset used_reply = ErrReply NilReply None None"
proof -
  have "\<not> Committed (response world0)" by (simp add: world0_def blank_response_def)
  then have "epool (snd (DefaultHTTPErrorHandler env0 (EReply used_reply) world0)) = used_reply # epool world0"
    by (rule handler_pool)
  then show ?thesis by (simp add: used_reply_eq world0_def reset_def)
qed

text \<open>
  C2, as the code has it. When the response is not yet committed, the default error
  handler puts the error reply it was given into the pool as it is, without
  \<^verbatim>\<open>reset()\<close>; when the handler ends without a panic, the wrapped reply of that
  instance is not nil. The instances are cleared when they are acquired.
\<close>

theorem release_without_reset:
  assumes "\<not> Committed (response w)"
  shows "epool (snd (DefaultHTTPErrorHandler e (EReply er) w)) = pool_Put (epool w) er
       \<and> (fst (DefaultHTTPErrorHandler e (EReply er) w) = None \<longrightarrow> Reply er \<noteq> NilReply)"
  using assms
  by (auto simp add: DefaultHTTPErrorHandler_def pool_Put_def Let_def split: sum.splits prod.splits)

theorem release_without_reset_witness:
  "\<not> Committed (response world0)
   \<and> epool (snd (DefaultHTTPErrorHandler env0 (EReply used_reply) world0)) = pool_Put (epool world0) used_reply
   \<and> fst (DefaultHTTPErrorHandler env0 (EReply used_reply) world0) = None
   \<and> Reply used_reply \<noteq> NilReply"
proof -
  have c: "\<not> Committed (response world0)" by (simp add: world0_def blank_response_def)
  have n: "fst (DefaultHTTPErrorHandler env0 (EReply used_reply) world0) = None"
    by (simp add: DefaultHTTPErrorHandler_def used_reply_eq world0_def env0_def blank_response_def
        EC_def EM_def HTTPCode_def ErrInternal_def init_heap_def JSON_def Response_Write_def
        WriteHeader_def Let_def)
  show ?thesis using release_without_reset [OF c, of env0 used_reply] c n by simp
qed

text \<open>
  C3. Whatever the pool holds and whichever instance it hands out, the error reply that
  \<^verbatim>\<open>Context.Abort(reply)\<close> returns wraps the given reply and has a nil cause and nil
  fields.
\<close>

theorem Abort_fresh:
  "Reply (fst (Abort p choice rp)) = rp \<and> err (fst (Abort p choice rp)) = None
   \<and> efields (fst (Abort p choice rp)) = None"
  by (simp add: Abort_def reset_def split: prod.splits)

theorem Abort_fresh_witness:
  "pool_Get [used_reply] (Some 0) = (used_reply, [])
   \<and> Reply (fst (Abort [used_reply] (Some 0) (ReplyPtr ErrIllegalparams))) = ReplyPtr ErrIllegalparams
   \<and> err (fst (Abort [used_reply] (Some 0) (ReplyPtr ErrIllegalparams))) = None
   \<and> efields (fst (Abort [used_reply] (Some 0) (ReplyPtr ErrIllegalparams))) = None"
  using Abort_fresh [of "[used_reply]" "Some 0" "ReplyPtr ErrIllegalparams"]
  by (simp add: pool_Get_def)

section \<open>Accumulation of causes\<close>

lemma writeItem_in_concat:
  assumes "x \<in> set es"
  shows "sublist (writePrefixLine multilineIndent (verbose x)) (concat (map (\<lambda>e. writeItem (verbose e)) es))"
proof -
  from assms obtain as bs where es: "es = as @ x # bs"
    by (auto simp: in_set_conv_decomp)
  have "concat (map (\<lambda>e. writeItem (verbose e)) es)
      = (concat (map (\<lambda>e. writeItem (verbose e)) as) @ multilineSeparator)
        @ writePrefixLine multilineIndent (verbose x)
        @ concat (map (\<lambda>e. writeItem (verbose e)) bs)"
    by (simp add: es writeItem_def)
  then show ?thesis
    by (metis sublist_appendI)
qed

lemma verbose_contains:
  assumes "x \<in> set es"
  shows "sublist (writePrefixLine multilineIndent (verbose x)) (WithMessage_verbose (MultiError es) m)"
proof -
  have "sublist (concat (map (\<lambda>e. writeItem (verbose e)) es)) (WithMessage_verbose (MultiError es) m)"
    unfolding WithMessage_verbose_def by (simp add: sublist_appendI)
  with writeItem_in_concat [OF assms] show ?thesis
    by (rule sublist_order.order_trans)
qed

lemma WithErr_twice_err:
  "err (WithErr (WithErr er (Some e1)) (Some e2)) =
     Some (MultiError ((case err er of None \<Rightarrow> [] | Some c \<Rightarrow> errors_of c) @ errors_of e1 @ errors_of e2))"
  by (cases "err er") (simp_all add: WithErr_def AppendInto_def)

text \<open>A text of one line is written as it is.\<close>

lemma writePrefixLine_single_line:
  "CHR 0x0A \<notin> set s \<Longrightarrow> writePrefixLine p s = s"
  by (induction p s rule: writePrefixLine.induct) auto

text \<open>
  C4. For an error reply whose wrapped reply is live and non-nil errors \<open>e1\<close> and
  \<open>e2\<close>: after \<^verbatim>\<open>WithErr(e1)\<close> and \<^verbatim>\<open>WithErr(e2)\<close> the cause is the join of the
  constituents of the earlier cause, of \<open>e1\<close> and of \<open>e2\<close>, in this order, and the
  string of \<^verbatim>\<open>Error()\<close> contains the text of every constituent of \<open>e1\<close> and of
  \<open>e2\<close> (as the list form prints it: lines after the first indented).
\<close>

theorem WithErr_twice_joins:
  assumes "Reply_EM h (Reply er) = Inr m"
  shows "err (WithErr (WithErr er (Some e1)) (Some e2)) =
           Some (MultiError ((case err er of None \<Rightarrow> [] | Some c \<Rightarrow> errors_of c)
                             @ errors_of e1 @ errors_of e2))
       \<and> (\<exists>s. Error h (WithErr (WithErr er (Some e1)) (Some e2)) = Inr s
              \<and> (\<forall>x \<in> set (errors_of e1 @ errors_of e2).
                    sublist (writePrefixLine multilineIndent (verbose x)) s))"
proof -
  let ?er = "WithErr (WithErr er (Some e1)) (Some e2)"
  let ?es = "(case err er of None \<Rightarrow> [] | Some c \<Rightarrow> errors_of c) @ errors_of e1 @ errors_of e2"
  have c: "err ?er = Some (MultiError ?es)" by (rule WithErr_twice_err)
  have r: "Reply ?er = Reply er" by (simp add: WithErr_def)
  have e: "Error h ?er = Inr (WithMessage_verbose (MultiError ?es) m)"
    by (simp add: Error_def c r assms)
  have "\<forall>x \<in> set (errors_of e1 @ errors_of e2).
          sublist (writePrefixLine multilineIndent (verbose x)) (WithMessage_verbose (MultiError ?es) m)"
    by (auto intro!: verbose_contains)
  with c e show ?thesis by blast
qed


theorem WithErr_twice_joins_witness:
  "Reply_EM init_heap (Reply (ErrReply (ReplyPtr ErrInternal) None None)) = Inr ''Internal Server Error''
   \<and> err (WithErr (WithErr (ErrReply (ReplyPtr ErrInternal) None None) (Some (Leaf ''db down'')))
              (Some (Leaf ''timeout'')))
       = Some (MultiError [Leaf ''db down'', Leaf ''timeout''])
   \<and> Error init_heap (WithErr (WithErr (ErrReply (ReplyPtr ErrInternal) None None) (Some (Leaf ''db down'')))
              (Some (Leaf ''timeout'')))
       = Inr (''the following errors occurred:'' @ [CHR 0x0A] @ '' -  db down'' @ [CHR 0x0A]
              @ '' -  timeout'' @ [CHR 0x0A] @ ''Internal Server Error'')
   \<and> sublist ''db down'' (''the following errors occurred:'' @ [CHR 0x0A] @ '' -  db down'' @ [CHR 0x0A]
              @ '' -  timeout'' @ [CHR 0x0A] @ ''Internal Server Error'')
   \<and> sublist ''timeout'' (''the following errors occurred:'' @ [CHR 0x0A] @ '' -  db down'' @ [CHR 0x0A]
              @ '' -  timeout'' @ [CHR 0x0A] @ ''Internal Server Error'')"
proof -
  let ?er = "ErrReply (ReplyPtr ErrInternal) None None"
  have m: "Reply_EM init_heap (Reply ?er) = Inr ''Internal Server Error''"
    by (simp add: EM_def ErrInternal_def init_heap_def)
  have e: "Error init_heap (WithErr (WithErr ?er (Some (Leaf ''db down''))) (Some (Leaf ''timeout'')))
       = Inr (''the following errors occurred:'' @ [CHR 0x0A] @ '' -  db down'' @ [CHR 0x0A]
              @ '' -  timeout'' @ [CHR 0x0A] @ ''Internal Server Error'')"
    by (simp add: Error_def WithErr_def AppendInto_def EM_def ErrInternal_def init_heap_def
        WithMessage_verbose_def writeItem_def
        multilinePrefix_def multilineSeparator_def multilineIndent_def)
  show ?thesis
    using WithErr_twice_joins [OF m, of "Leaf ''db down''" "Leaf ''timeout''"] m e
    by simp
qed

section \<open>The boundary: SetPayload\<close>

text \<open>
  C10. \<^verbatim>\<open>SetPayload\<close> asserts the type \<^verbatim>\<open>*reply\<close> without a check: for a payload of any
  other dynamic type, an \<^verbatim>\<open>errReply\<close> or the nil interface, the call panics and
  returns no error.
\<close>

theorem SetPayload_type_assertion:
  assumes "\<forall>p. payload \<noteq> ReplyPtr p"
  shows "SetPayload h rs fail payload = Inl TypeAssertion"
  using assms by (cases payload) (simp_all add: SetPayload_def)

theorem SetPayload_type_assertion_witness:
  "(\<forall>p. ErrReplyPtr (ErrReply (ReplyPtr ErrInternal) None None) \<noteq> ReplyPtr p)
   \<and> SetPayload init_heap blank_response None (ErrReplyPtr (ErrReply (ReplyPtr ErrInternal) None None))
       = Inl TypeAssertion"
  using SetPayload_type_assertion [of "ErrReplyPtr (ErrReply (ReplyPtr ErrInternal) None None)" init_heap blank_response None]
  by simp












section \<open>Log levels\<close>

lemma emit_simps:
  "entries (emit l x w) = entries w @ [\<lparr>lvl = l, log_fields =
      (case x of Some (EReply er) \<Rightarrow> with_fields (base_fields w) (efields er) | _ \<Rightarrow> base_fields w),
      log_error = x\<rparr>]"
  "response (emit l x w) = response w"
  by (simp_all add: emit_def Let_def)

lemmas run_defs =
  LoggerWithConfig_def observed_def world0_def env0_def JSON_def Response_Write_def WriteHeader_def
  json_members_def json_string_def blank_response_def emit_simps
  DefaultHTTPErrorHandler_def Abort_def pool_Get_def pool_Put_def reset_def errReplyPool_New_def
  EC_def EM_def HTTPCode_def init_heap_def Let_def WithErr_def WithField_def AppendInto_def
  OK_def ErrInternal_def ErrIllegalparams_def

lemma run_direct_500:
  "observed (LoggerWithConfig None env0 direct_500 world0) = Some (None, 500, [InfoLevel])"
  by (simp add: run_defs direct_500_def)

lemma run_abort_ok:
  "observed (LoggerWithConfig None env0 abort_ok world0)
     = Some (Some (EReply (ErrReply (ReplyPtr OK) None None)), 200, [WarnLevel])"
  by (simp add: run_defs abort_ok_def)

lemma run_abort_internal:
  "observed (LoggerWithConfig None env0 abort_internal world0)
     = Some (Some (EReply used_reply), 500, [ErrorLevel])"
  by (simp add: run_defs abort_internal_def used_reply_eq)

lemma run_abort_bad_request:
  "observed (LoggerWithConfig None env0 abort_bad_request world0)
     = Some (Some (EReply (ErrReply (ReplyPtr ErrIllegalparams) None (Some [(''rpc'', JStr ''/svc'')]))),
             400, [WarnLevel])"
  by (simp add: run_defs abort_bad_request_def)

text \<open>
  A handler that writes a 500 response and returns nil is logged at info level, and a
  handler that aborts with the canonical success reply (status 200) at warning level.
\<close>

theorem log_level_counterexample:
  "observed (LoggerWithConfig None env0 direct_500 world0) = Some (None, 500, [InfoLevel])
   \<and> observed (LoggerWithConfig None env0 abort_ok world0)
       = Some (Some (EReply (ErrReply (ReplyPtr OK) None None)), 200, [WarnLevel])"
  using run_direct_500 run_abort_ok by simp

text \<open>
  C8, as the code has it. For a request that the middleware does not skip and that ends
  without a panic, the last entry logged is at info level when the handler chain
  returned nil, whatever the status; when the chain returned an error, it is at error
  level for a status of 500 or more and at warning level for any other status.
\<close>

theorem log_level_policy:
  assumes "\<not> (case Skipper of None \<Rightarrow> False | Some skip \<Rightarrow> skip w)"
      and "observed (LoggerWithConfig Skipper e h w) = Some (x, st, ls)"
  shows "(\<exists>w1. h w = Inr (x, w1))
       \<and> ls \<noteq> []
       \<and> last ls = (if x = None then InfoLevel
                    else if st \<ge> 500 then ErrorLevel else WarnLevel)"
  using assms
  by (auto simp add: LoggerWithConfig_def observed_def emit_simps
      split: sum.splits prod.splits option.splits if_splits)

theorem log_level_policy_witness:
  "\<not> (case (None :: (world \<Rightarrow> bool) option) of None \<Rightarrow> False | Some skip \<Rightarrow> skip world0)
   \<and> observed (LoggerWithConfig None env0 abort_internal world0)
       = Some (Some (EReply used_reply), 500, [ErrorLevel])
   \<and> last [ErrorLevel] = (if Some (EReply used_reply) = None then InfoLevel
                          else if (500::int) \<ge> 500 then ErrorLevel else WarnLevel)
   \<and> observed (LoggerWithConfig None env0 abort_bad_request world0)
       = Some (Some (EReply (ErrReply (ReplyPtr ErrIllegalparams) None (Some [(''rpc'', JStr ''/svc'')]))),
               400, [WarnLevel])
   \<and> observed (LoggerWithConfig None env0 direct_500 world0) = Some (None, 500, [InfoLevel])"
  using log_level_policy [where Skipper = None and w = world0 and e = env0 and h = abort_internal
        and x = "Some (EReply used_reply)" and st = 500 and ls = "[ErrorLevel]"]
    run_abort_internal run_abort_bad_request run_direct_500
  by simp

section \<open>The message of the default error handler\<close>


text \<open>
  A HEAD request gets the header only, under the business code as the status: a business
  code that is no HTTP status makes the handler panic, after the instance went back
  into the pool.
\<close>

lemma head_request:
  "DefaultHTTPErrorHandler env0 (EReply used_reply)
     (world0\<lparr>request := (request world0)\<lparr>Method := ''HEAD''\<rparr>\<rparr>)
     = (None, world0\<lparr>request := (request world0)\<lparr>Method := ''HEAD''\<rparr>,
                     epool := [used_reply],
                     response := \<lparr>Committed = True, Status = 500, Body = []\<rparr>\<rparr>)"
  "DefaultHTTPErrorHandler env0 (EReply (ErrReply (ReplyPtr 0) None None))
     (world0\<lparr>request := (request world0)\<lparr>Method := ''HEAD''\<rparr>,
             store := [\<lparr>httpCode = 404, ec = 40401, em = ''gone'', lang = [], data = None\<rparr>]\<rparr>)
     = (Some InvalidWriteHeaderCode,
        world0\<lparr>request := (request world0)\<lparr>Method := ''HEAD''\<rparr>,
               store := [\<lparr>httpCode = 404, ec = 40401, em = ''gone'', lang = [], data = None\<rparr>],
               epool := [ErrReply (ReplyPtr 0) None None],
               response := \<lparr>Committed = False, Status = 40401, Body = []\<rparr>\<rparr>)"
  by (simp_all add: DefaultHTTPErrorHandler_def used_reply_eq world0_def env0_def blank_response_def
      EC_def EM_def ErrInternal_def init_heap_def NoContent_def WriteHeader_def pool_Put_def Let_def)



end
